theory Spec2Isabelle
  imports Main
begin

section \<open>Python values and exceptions\<close>

text \<open>
  The cursor of \<^verbatim>\<open>gluedbapi/cursor.py\<close> handles dynamically typed values: the response
  of the remote statement, the payload decoded by \<^verbatim>\<open>json.loads\<close>, the rows it hands out.
  \<open>pyval\<close> is the part of Python's value universe these values live in; \<open>PNone\<close> is
  \<^verbatim>\<open>None\<close>. A dictionary is an association list in insertion order. Floating-point
  numbers are left out.
\<close>

datatype pyval =
    PNone
  | PBool bool
  | PInt int
  | PStr string
  | PList "pyval list"
  | PDict "(pyval \<times> pyval) list"

text \<open>
  The two messages of \<^verbatim>\<open>DatabaseException\<close> are f-strings; a message is kept as the
  values interpolated into it: status, statement id, code, error name and error value for
  \<^verbatim>\<open>Glue returned ...\<close>, session id and statement id for \<^verbatim>\<open>Statement ... cancelled.\<close>
\<close>

datatype db_msg =
    GlueReturned pyval pyval pyval pyval pyval
  | StatementCancelled pyval pyval

datatype error =
    Exception string
  | InternalException "string option"
  | DatabaseException db_msg
  | AttributeError
  | TypeError
  | ValueError
  | IndexError
  | KeyError
  | JSONDecodeError
  | StopIteration
  | StatementFailure string

definition and_then :: "error + 'a \<Rightarrow> ('a \<Rightarrow> error + 'b) \<Rightarrow> error + 'b" where
  "and_then r f = (case r of Inl e \<Rightarrow> Inl e | Inr v \<Rightarrow> f v)"

fun map_err :: "('a \<Rightarrow> error + 'b) \<Rightarrow> 'a list \<Rightarrow> error + 'b list" where
  "map_err f [] = Inr []"
| "map_err f (x # xs) =
     (case f x of
        Inl e \<Rightarrow> Inl e
      | Inr y \<Rightarrow> (case map_err f xs of Inl e \<Rightarrow> Inl e | Inr ys \<Rightarrow> Inr (y # ys)))"

text \<open>Truth value of an object, as \<^verbatim>\<open>if x:\<close> and \<^verbatim>\<open>not x\<close> test it.\<close>

fun truthy :: "pyval \<Rightarrow> bool" where
  "truthy PNone = False"
| "truthy (PBool b) = b"
| "truthy (PInt i) = (i \<noteq> 0)"
| "truthy (PStr s) = (s \<noteq> [])"
| "truthy (PList xs) = (xs \<noteq> [])"
| "truthy (PDict kvs) = (kvs \<noteq> [])"

fun hashable :: "pyval \<Rightarrow> bool" where
  "hashable (PList xs) = False"
| "hashable (PDict kvs) = False"
| "hashable v = True"

text \<open>Equality of dictionary keys: \<^verbatim>\<open>True == 1\<close> and \<^verbatim>\<open>False == 0\<close>.\<close>

fun key_eq :: "pyval \<Rightarrow> pyval \<Rightarrow> bool" where
  "key_eq (PBool a) (PInt i) = (i = (if a then 1 else 0))"
| "key_eq (PInt i) (PBool a) = (i = (if a then 1 else 0))"
| "key_eq a b = (a = b)"

fun dict_lookup :: "(pyval \<times> pyval) list \<Rightarrow> pyval \<Rightarrow> pyval option" where
  "dict_lookup [] k = None"
| "dict_lookup ((k', v) # kvs) k = (if key_eq k' k then Some v else dict_lookup kvs k)"

text \<open>\<^verbatim>\<open>d[k] = v\<close>: an existing key keeps its place and its key object.\<close>

fun dict_set :: "(pyval \<times> pyval) list \<Rightarrow> pyval \<Rightarrow> pyval \<Rightarrow> (pyval \<times> pyval) list" where
  "dict_set [] k v = [(k, v)]"
| "dict_set ((k', v') # kvs) k v =
     (if key_eq k' k then (k', v) # kvs else (k', v') # dict_set kvs k v)"

text \<open>\<^verbatim>\<open>d.get(k, default)\<close>; only a dictionary has the method.\<close>

definition py_get :: "pyval \<Rightarrow> pyval \<Rightarrow> pyval \<Rightarrow> error + pyval" where
  "py_get d k dflt =
     (case d of
        PDict kvs \<Rightarrow>
          if hashable k
          then Inr (case dict_lookup kvs k of Some v \<Rightarrow> v | None \<Rightarrow> dflt)
          else Inl TypeError
      | _ \<Rightarrow> Inl AttributeError)"

text \<open>Indexing a sequence; an index below zero counts from the end.\<close>

definition seq_index :: "'a list \<Rightarrow> int \<Rightarrow> error + 'a" where
  "seq_index xs i =
     (if 0 \<le> i \<and> i < int (length xs) then Inr (xs ! nat i)
      else if i < 0 \<and> - int (length xs) \<le> i then Inr (xs ! nat (int (length xs) + i))
      else Inl IndexError)"

definition as_index :: "pyval \<Rightarrow> int option" where
  "as_index k =
     (case k of PInt i \<Rightarrow> Some i | PBool b \<Rightarrow> Some (if b then 1 else 0) | _ \<Rightarrow> None)"

text \<open>\<^verbatim>\<open>x[k]\<close>.\<close>

definition py_getitem :: "pyval \<Rightarrow> pyval \<Rightarrow> error + pyval" where
  "py_getitem x k =
     (case x of
        PDict kvs \<Rightarrow>
          if hashable k
          then (case dict_lookup kvs k of Some v \<Rightarrow> Inr v | None \<Rightarrow> Inl KeyError)
          else Inl TypeError
      | PList xs \<Rightarrow>
          (case as_index k of Some i \<Rightarrow> seq_index xs i | None \<Rightarrow> Inl TypeError)
      | PStr s \<Rightarrow>
          (case as_index k of
             Some i \<Rightarrow> and_then (seq_index s i) (\<lambda>ch. Inr (PStr [ch]))
           | None \<Rightarrow> Inl TypeError)
      | _ \<Rightarrow> Inl TypeError)"

text \<open>The objects that \<^verbatim>\<open>x[k]\<close> can index at all.\<close>

fun subscriptable :: "pyval \<Rightarrow> bool" where
  "subscriptable (PStr s) = True"
| "subscriptable (PList xs) = True"
| "subscriptable (PDict kvs) = True"
| "subscriptable v = False"

text \<open>The items a \<^verbatim>\<open>for\<close> loop draws from an object.\<close>

definition py_iter :: "pyval \<Rightarrow> error + pyval list" where
  "py_iter x =
     (case x of
        PList xs \<Rightarrow> Inr xs
      | PStr s \<Rightarrow> Inr (map (\<lambda>ch. PStr [ch]) s)
      | PDict kvs \<Rightarrow> Inr (map fst kvs)
      | _ \<Rightarrow> Inl TypeError)"

section \<open>String methods\<close>

text \<open>\<^verbatim>\<open>s.find(sub)\<close> as an optional position; \<^verbatim>\<open>find\<close> gives \<open>-1\<close> for none.\<close>

fun find_pos :: "string \<Rightarrow> string \<Rightarrow> nat option" where
  "find_pos [] sub = (if sub = [] then Some 0 else None)"
| "find_pos (c # s) sub =
     (if take (length sub) (c # s) = sub then Some 0 else map_option Suc (find_pos s sub))"

definition str_find :: "string \<Rightarrow> string \<Rightarrow> int" where
  "str_find s sub = (case find_pos s sub of None \<Rightarrow> - 1 | Some i \<Rightarrow> int i)"

definition startswith :: "string \<Rightarrow> string \<Rightarrow> bool" where
  "startswith s p = (take (length p) s = p)"

definition str_index :: "string \<Rightarrow> string \<Rightarrow> error + nat" where
  "str_index s sub = (case find_pos s sub of None \<Rightarrow> Inl ValueError | Some i \<Rightarrow> Inr i)"

definition str_contains :: "string \<Rightarrow> string \<Rightarrow> bool" where
  "str_contains sub s = (find_pos s sub \<noteq> None)"

text \<open>\<^verbatim>\<open>s.replace(old, new)\<close>: occurrences are replaced from the left, without overlap.\<close>

function str_replace :: "string \<Rightarrow> string \<Rightarrow> string \<Rightarrow> string" where
  "str_replace s old new =
     (if old = [] then new @ concat (map (\<lambda>ch. ch # new) s)
      else if s = [] then []
      else if take (length old) s = old then new @ str_replace (drop (length old) s) old new
      else hd s # str_replace (tl s) old new)"
  by pat_completeness auto
termination
  by (relation "measure (\<lambda>(s, old, new). length s)") auto

declare str_replace.simps [simp del]

definition is_space :: "char \<Rightarrow> bool" where
  "is_space ch = (of_char ch \<in> {9, 10, 11, 12, 13, 28, 29, 30, 31, 32, 133, 160 :: nat})"

definition str_strip :: "string \<Rightarrow> string" where
  "str_strip s = rev (dropWhile is_space (rev (dropWhile is_space s)))"

fun str_split :: "char \<Rightarrow> string \<Rightarrow> string list" where
  "str_split sep [] = [[]]"
| "str_split sep (ch # s) =
     (if ch = sep then [] # str_split sep s
      else (case str_split sep s of [] \<Rightarrow> [[ch]] | w # ws \<Rightarrow> (ch # w) # ws))"


section \<open>The cursor\<close>

text \<open>
  The attributes of \<^verbatim>\<open>GlueCursor\<close>. \<open>closed\<close>, \<open>is_running\<close>, \<open>connection\<close> and \<open>it\<close>
  are \<^verbatim>\<open>_closed\<close>, \<^verbatim>\<open>_is_running\<close>, \<^verbatim>\<open>_connection\<close> and \<^verbatim>\<open>_it\<close>. The constructor
  assigns neither \<^verbatim>\<open>_it\<close> nor \<^verbatim>\<open>statement\<close>: reading one of them before \<^verbatim>\<open>execute\<close> has
  assigned it raises \<^verbatim>\<open>AttributeError\<close>, so both have a value for "not assigned".
\<close>

record glue_connection =
  client :: string
  session_id :: pyval

record glue_statement =
  stmt_client :: string
  stmt_session_id :: pyval
  stmt_code :: string

definition GlueStatement :: "string \<Rightarrow> pyval \<Rightarrow> string \<Rightarrow> glue_statement" where
  "GlueStatement cl sid cd = \<lparr> stmt_client = cl, stmt_session_id = sid, stmt_code = cd \<rparr>"

datatype it_attr = ItUnset | ItNone | ItIdx nat

record cursor =
  name :: string
  connection :: glue_connection
  state :: pyval
  is_running :: bool
  statement_id :: pyval
  code :: pyval
  sql :: pyval
  response :: pyval
  closed :: bool
  it :: it_attr
  statement :: "glue_statement option"

text \<open>
  What the cursor calls outside of this repository's file: \<^verbatim>\<open>textwrap.dedent\<close>,
  \<^verbatim>\<open>json.loads\<close> (\<open>None\<close> when it raises) and \<^verbatim>\<open>GlueStatement.execute\<close>, which
  submits the statement and returns the remote response or raises.
\<close>

record env =
  dedent :: "string \<Rightarrow> string"
  loads :: "string \<Rightarrow> pyval option"
  run_statement :: "glue_statement \<Rightarrow> error + pyval"

definition AVAILABLE :: pyval where "AVAILABLE = PStr ''AVAILABLE''"
definition WAITING :: pyval where "WAITING = PStr ''WAITING''"
definition RUNNING :: pyval where "RUNNING = PStr ''RUNNING''"
definition CANCELLING :: pyval where "CANCELLING = PStr ''CANCELLING''"
definition CANCELLED :: pyval where "CANCELLED = PStr ''CANCELLED''"
definition ERROR :: pyval where "ERROR = PStr ''ERROR''"

definition init :: "string \<Rightarrow> glue_connection \<Rightarrow> cursor" where
  "init uuid conn =
     \<lparr> name = uuid, connection = conn, state = PNone, is_running = False,
       statement_id = PNone, code = PNone, sql = PNone, response = PNone,
       closed = False, it = ItUnset, statement = None \<rparr>"

definition rowcount :: "cursor \<Rightarrow> error + pyval" where
  "rowcount c =
     (if truthy (response c) then py_get (response c) (PStr ''rowcount'') PNone
      else Inr PNone)"

definition pre :: "cursor \<Rightarrow> cursor" where
  "pre c = c\<lparr> it := ItNone, is_running := True, response := PNone \<rparr>"

definition post :: "cursor \<Rightarrow> cursor" where
  "post c = c\<lparr> it := ItNone, is_running := False \<rparr>"

definition newline :: char where "newline = CHR 0x0A"
definition quote3 :: string where "quote3 = [CHR 0x27, CHR 0x27, CHR 0x27]"

definition remove_comments_header :: "string \<Rightarrow> error + string" where
  "remove_comments_header s =
     (if take 2 s = ''/*''
      then and_then (str_index s (''*/'' @ [newline])) (\<lambda>endpos. Inr (drop (endpos + 3) s))
      else Inr s)"

definition pyspark_marker :: string where "pyspark_marker = ''--pyspark''"

definition submission_code :: "env \<Rightarrow> string \<Rightarrow> string" where
  "submission_code ev s =
     (if str_contains pyspark_marker s
      then dedent ev (str_replace s pyspark_marker [])
      else ''SqlWrapper2.execute('' @ quote3 @ s @ quote3 @ '')'')"


subsection \<open>execute\<close>

text \<open>
  Every function that assigns attributes returns the outcome together with the cursor as
  the call leaves it, also when it raises: the assignments made before an exception stay.
  Calls of the logger assign nothing and are left out, except where computing the logged
  message can raise.
\<close>

definition text_plain :: "pyval \<Rightarrow> error + string" where
  "text_plain output =
     and_then (py_get output (PStr ''Data'') (PDict [])) (\<lambda>d.
     and_then (py_get d (PStr ''TextPlain'') PNone) (\<lambda>t.
       case t of PStr s \<Rightarrow> Inr (str_strip s) | _ \<Rightarrow> Inl AttributeError))"

definition json_loads :: "env \<Rightarrow> string \<Rightarrow> error + pyval" where
  "json_loads ev s = (case loads ev s of None \<Rightarrow> Inl JSONDecodeError | Some v \<Rightarrow> Inr v)"

definition first_chunk :: "string list \<Rightarrow> error + string" where
  "first_chunk chunks = (case chunks of [] \<Rightarrow> Inl IndexError | ch # _ \<Rightarrow> Inr ch)"

text \<open>
  The argument of the last \<^verbatim>\<open>logger.debug\<close> of the \<^verbatim>\<open>ok\<close> branch:
  \<^verbatim>\<open>"Could not parse " + json.loads(chunks[0])\<close> decodes the fragment once more and
  concatenates the result to a string.
\<close>

definition could_not_parse :: "env \<Rightarrow> string list \<Rightarrow> error + unit" where
  "could_not_parse ev chunks =
     and_then (first_chunk chunks) (\<lambda>ch.
     and_then (json_loads ev ch) (\<lambda>v.
       case v of PStr _ \<Rightarrow> Inr () | _ \<Rightarrow> Inl TypeError))"

definition parse_output :: "env \<Rightarrow> pyval \<Rightarrow> cursor \<Rightarrow> (error + unit) \<times> cursor" where
  "parse_output ev output c =
     (case and_then (text_plain output) (json_loads ev) of
        Inr v \<Rightarrow> (Inr (), c\<lparr>response := v\<rparr>)
      | Inl ex \<Rightarrow>
          (case text_plain output of
             Inl e \<Rightarrow> (Inl e, c)
           | Inr t \<Rightarrow>
               (let chunks = str_split newline t in
                case and_then (first_chunk chunks) (json_loads ev) of
                  Inr v \<Rightarrow> (Inr (), c\<lparr>response := v\<rparr>)
                | Inl ex \<Rightarrow>
                    (case could_not_parse ev chunks of
                       Inl e \<Rightarrow> (Inl e, c)
                     | Inr u \<Rightarrow> (Inr (), c)))))"

definition error_value_find :: "pyval \<Rightarrow> error + int" where
  "error_value_find output =
     and_then (py_get output (PStr ''ErrorValue'') PNone) (\<lambda>v.
       case v of PStr s \<Rightarrow> Inr (str_find s ''is not a view'') | _ \<Rightarrow> Inl AttributeError)"

definition glue_returned :: "pyval \<Rightarrow> pyval \<Rightarrow> cursor \<Rightarrow> error + db_msg" where
  "glue_returned status output c =
     and_then (py_get output (PStr ''ErrorName'') PNone) (\<lambda>en.
     and_then (py_get output (PStr ''ErrorValue'') PNone) (\<lambda>evl.
       Inr (GlueReturned status (statement_id c) (code c) en evl)))"

definition not_ok :: "pyval \<Rightarrow> pyval \<Rightarrow> cursor \<Rightarrow> (error + unit) \<times> cursor" where
  "not_ok status output c =
     (case error_value_find output of
        Inl e \<Rightarrow> (Inl e, c)
      | Inr n \<Rightarrow>
          if truthy (PInt n) then (Inr (), c)
          else (case glue_returned status output c of
                  Inl e \<Rightarrow> (Inl e, c)
                | Inr m \<Rightarrow> (Inl (DatabaseException m), c)))"

definition statement_field :: "pyval \<Rightarrow> string \<Rightarrow> pyval \<Rightarrow> error + pyval" where
  "statement_field resp k dflt =
     and_then (py_get resp (PStr ''Statement'') (PDict [])) (\<lambda>st. py_get st (PStr k) dflt)"

definition available :: "env \<Rightarrow> pyval \<Rightarrow> cursor \<Rightarrow> (error + unit) \<times> cursor" where
  "available ev resp c =
     (let c1 = post c in
      case statement_field resp ''Output'' (PDict []) of
        Inl e \<Rightarrow> (Inl e, c1)
      | Inr output \<Rightarrow>
          (case py_get output (PStr ''Status'') PNone of
             Inl e \<Rightarrow> (Inl e, c1)
           | Inr status \<Rightarrow>
               if status = PStr ''ok'' then parse_output ev output c1
               else not_ok status output c1))"

definition terminal :: "cursor \<Rightarrow> (error + pyval) \<times> cursor" where
  "terminal c =
     (if state c = ERROR
      then (Inl (InternalException None), (post c)\<lparr>state := PStr ''error''\<rparr>)
      else if state c = CANCELLED \<or> state c = CANCELLING
      then (Inl (DatabaseException
                   (StatementCancelled (session_id (connection c)) (statement_id c))),
            post c)
      else (Inr (response c), c))"

definition handle_response :: "env \<Rightarrow> pyval \<Rightarrow> cursor \<Rightarrow> (error + pyval) \<times> cursor" where
  "handle_response ev resp c =
     (case statement_field resp ''State'' WAITING of
        Inl e \<Rightarrow> (Inl e, c)
      | Inr st \<Rightarrow>
          (let c1 = c\<lparr>state := st\<rparr> in
           if st = AVAILABLE
           then (case available ev resp c1 of
                   (Inl e, c2) \<Rightarrow> (Inl e, c2)
                 | (Inr u, c2) \<Rightarrow> terminal c2)
           else terminal c1))"

definition execute :: "env \<Rightarrow> string \<Rightarrow> cursor \<Rightarrow> (error + pyval) \<times> cursor" where
  "execute ev q c =
     (if closed c then (Inl (Exception ''CursorClosed''), c)
      else if is_running c then (Inl (InternalException (Some ''CursorAlreadyRunning'')), c)
      else
        (case remove_comments_header q of
           Inl e \<Rightarrow> (Inl e, c)
         | Inr s \<Rightarrow>
             (let c1 = pre (c\<lparr>sql := PStr s\<rparr>);
                  c2 = c1\<lparr>code := PStr (submission_code ev s)\<rparr>;
                  stmt = GlueStatement (client (connection c2)) (session_id (connection c2))
                           (submission_code ev s);
                  c3 = c2\<lparr>statement := Some stmt\<rparr>
              in case run_statement ev stmt of
                   Inl e \<Rightarrow> (Inl e, c3)
                 | Inr resp \<Rightarrow> handle_response ev resp c3)))"


subsection \<open>Accessors and fetch operations\<close>

definition columns :: "cursor \<Rightarrow> error + pyval" where
  "columns c =
     (if truthy (response c)
      then and_then (py_get (response c) (PStr ''description'') PNone) (\<lambda>d.
           and_then (py_iter d) (\<lambda>cs.
           and_then (map_err (\<lambda>column. py_get column (PStr ''name'') PNone) cs) (\<lambda>ns.
             Inr (PList ns))))
      else Inr PNone)"

text \<open>
  The inner loop of both fetch methods:
  \<^verbatim>\<open>for column in self.columns: record.append(item.get("data", {}).get(column, None))\<close>.
\<close>

definition record_of :: "cursor \<Rightarrow> pyval \<Rightarrow> error + pyval list" where
  "record_of c item =
     and_then (columns c) (\<lambda>cols.
     and_then (py_iter cols) (\<lambda>cs.
       map_err (\<lambda>column.
         and_then (py_get item (PStr ''data'') (PDict [])) (\<lambda>d. py_get d column PNone)) cs))"

definition fetchall :: "cursor \<Rightarrow> error + pyval" where
  "fetchall c =
     (if closed c then Inl (Exception ''CursorClosed'')
      else if truthy (response c)
      then and_then (py_get (response c) (PStr ''results'') (PList [])) (\<lambda>rs.
           and_then (py_iter rs) (\<lambda>items.
           and_then (map_err (record_of c) items) (\<lambda>records.
             Inr (PList (map PList records)))))
      else Inr PNone)"

definition it_value :: "it_attr \<Rightarrow> error + pyval" where
  "it_value a =
     (case a of ItUnset \<Rightarrow> Inl AttributeError | ItNone \<Rightarrow> Inr PNone
      | ItIdx i \<Rightarrow> Inr (PInt (int i)))"

definition it_succ :: "it_attr \<Rightarrow> error + it_attr" where
  "it_succ a =
     (case a of ItUnset \<Rightarrow> Inl AttributeError | ItNone \<Rightarrow> Inl TypeError
      | ItIdx i \<Rightarrow> Inr (ItIdx (i + 1)))"

text \<open>The body of the \<^verbatim>\<open>try\<close> of \<^verbatim>\<open>fetchone\<close>: the record and the next index.\<close>

definition fetch_row :: "cursor \<Rightarrow> error + (pyval list \<times> it_attr)" where
  "fetch_row c =
     and_then (py_get (response c) (PStr ''results'') PNone) (\<lambda>rs.
     and_then (it_value (it c)) (\<lambda>idx.
     and_then (py_getitem rs idx) (\<lambda>item.
     and_then (record_of c item) (\<lambda>record.
     and_then (it_succ (it c)) (\<lambda>nxt. Inr (record, nxt))))))"

text \<open>\<^verbatim>\<open>if not self._it: self._it = 0\<close>, the statement before the \<^verbatim>\<open>try\<close>.\<close>

definition start_it :: "cursor \<Rightarrow> error + cursor" where
  "start_it c =
     and_then (it_value (it c)) (\<lambda>v.
       Inr (if \<not> truthy v then c\<lparr>it := ItIdx 0\<rparr> else c))"

definition fetchone :: "cursor \<Rightarrow> (error + pyval) \<times> cursor" where
  "fetchone c =
     (if closed c then (Inl (Exception ''CursorClosed''), c)
      else if truthy (response c)
      then (case start_it c of
              Inl e \<Rightarrow> (Inl e, c)
            | Inr c1 \<Rightarrow>
                (case fetch_row c1 of
                   Inr (record, nxt) \<Rightarrow> (Inr (PList record), c1\<lparr>it := nxt\<rparr>)
                 | Inl ex \<Rightarrow> (Inr PNone, c1\<lparr>it := ItNone\<rparr>)))
      else (Inr PNone, c))"

definition next_row :: "cursor \<Rightarrow> (error + pyval) \<times> cursor" where
  "next_row c =
     (case fetchone c of
        (Inl e, c') \<Rightarrow> (Inl e, c')
      | (Inr item, c') \<Rightarrow>
          if \<not> truthy item then (Inl StopIteration, c') else (Inr item, c'))"

definition description :: "cursor \<Rightarrow> error + pyval" where
  "description c =
     (if truthy (response c)
      then and_then (py_get (response c) (PStr ''description'') (PList [])) (\<lambda>d.
           and_then (py_iter d) (\<lambda>cs.
           and_then (map_err (\<lambda>col.
               and_then (py_getitem col (PStr ''name'')) (\<lambda>n.
               and_then (py_getitem col (PStr ''type'')) (\<lambda>t. Inr (PList [n, t])))) cs)
             (\<lambda>ps. Inr (PList ps))))
      else Inr PNone)"

definition close :: "cursor \<Rightarrow> (error + pyval) \<times> cursor" where
  "close c =
     (if closed c then (Inl (Exception ''CursorAlreadyClosed''), c)
      else (Inr PNone, c\<lparr>closed := True\<rparr>))"

subsection \<open>GlueDictCursor\<close>

text \<open>\<^verbatim>\<open>for i, c in enumerate(self.columns): data[c] = item[i]\<close>.\<close>

fun fill_dict ::
  "pyval \<Rightarrow> (pyval \<times> pyval) list \<Rightarrow> nat \<Rightarrow> pyval list \<Rightarrow> error + (pyval \<times> pyval) list" where
  "fill_dict item data i [] = Inr data"
| "fill_dict item data i (col # cols) =
     and_then (py_getitem item (PInt (int i))) (\<lambda>v.
       if hashable col then fill_dict item (dict_set data col v) (Suc i) cols
       else Inl TypeError)"

definition dict_of_row :: "cursor \<Rightarrow> pyval \<Rightarrow> error + pyval" where
  "dict_of_row c item =
     and_then (columns c) (\<lambda>cols.
     and_then (py_iter cols) (\<lambda>cs.
     and_then (fill_dict item [] 0 cs) (\<lambda>data. Inr (PDict data))))"

definition dict_fetchone :: "cursor \<Rightarrow> (error + pyval) \<times> cursor" where
  "dict_fetchone c =
     (case fetchone c of
        (Inl e, c') \<Rightarrow> (Inl e, c')
      | (Inr item, c') \<Rightarrow>
          if \<not> truthy item then (Inr PNone, c')
          else (case dict_of_row c' item of
                  Inl e \<Rightarrow> (Inl e, c')
                | Inr data \<Rightarrow> (Inr data, c')))"

definition dict_fetchall :: "cursor \<Rightarrow> error + pyval" where
  "dict_fetchall c =
     and_then (fetchall c) (\<lambda>array_records.
     and_then (py_iter array_records) (\<lambda>items.
     and_then (map_err (dict_of_row c) items) (\<lambda>dict_records.
       Inr (PList dict_records))))"

subsection \<open>Sequences of calls\<close>

text \<open>
  The methods that assign attributes of the cursor, as one step function. The remaining
  members (\<^verbatim>\<open>rowcount\<close>, \<^verbatim>\<open>columns\<close>, \<^verbatim>\<open>description\<close>, \<^verbatim>\<open>get_response\<close>,
  \<^verbatim>\<open>fetchall\<close>) only read the cursor.
\<close>

datatype call =
    Execute string
  | Fetchone
  | Fetchall
  | Next
  | Close
  | DictFetchone
  | DictFetchall

fun step :: "env \<Rightarrow> call \<Rightarrow> cursor \<Rightarrow> (error + pyval) \<times> cursor" where
  "step ev (Execute q) c = execute ev q c"
| "step ev Fetchone c = fetchone c"
| "step ev Fetchall c = (fetchall c, c)"
| "step ev Next c = next_row c"
| "step ev Close c = close c"
| "step ev DictFetchone c = dict_fetchone c"
| "step ev DictFetchall c = (dict_fetchall c, c)"

fun run :: "env \<Rightarrow> call list \<Rightarrow> cursor \<Rightarrow> cursor" where
  "run ev [] c = c"
| "run ev (x # xs) c = run ev xs (snd (step ev x c))"

text \<open>\<^verbatim>\<open>fetchone\<close> called \<open>n\<close> times in a row: the outcomes in order and the cursor left.\<close>

fun fetchone_times :: "nat \<Rightarrow> cursor \<Rightarrow> (error + pyval) list \<times> cursor" where
  "fetchone_times 0 c = ([], c)"
| "fetchone_times (Suc n) c =
     (case fetchone c of
        (r, c') \<Rightarrow> (case fetchone_times n c' of (rs, c'') \<Rightarrow> (r # rs, c'')))"


section \<open>Well-formed payloads\<close>

text \<open>
  The payload the remote helper prints for a query: an object with a \<^verbatim>\<open>description\<close> list
  of column objects and a \<^verbatim>\<open>results\<close> list of row objects, each row holding its values
  under \<^verbatim>\<open>data\<close>. \<open>column_name\<close> and \<open>project\<close> say what a column's name and a row's
  positional record are.
\<close>

definition lookup_or :: "(pyval \<times> pyval) list \<Rightarrow> pyval \<Rightarrow> pyval \<Rightarrow> pyval" where
  "lookup_or kvs k dflt = (case dict_lookup kvs k of Some v \<Rightarrow> v | None \<Rightarrow> dflt)"

fun is_dict :: "pyval \<Rightarrow> bool" where
  "is_dict (PDict kvs) = True"
| "is_dict v = False"

fun items_of :: "pyval \<Rightarrow> (pyval \<times> pyval) list" where
  "items_of (PDict kvs) = kvs"
| "items_of v = []"

definition column_name :: "pyval \<Rightarrow> pyval" where
  "column_name col = lookup_or (items_of col) (PStr ''name'') PNone"

definition wf_column :: "pyval \<Rightarrow> bool" where
  "wf_column col = (is_dict col \<and> hashable (column_name col))"

definition row_data :: "pyval \<Rightarrow> pyval" where
  "row_data row = lookup_or (items_of row) (PStr ''data'') (PDict [])"

definition wf_row :: "pyval \<Rightarrow> bool" where
  "wf_row row = (is_dict row \<and> is_dict (row_data row))"

definition project :: "pyval list \<Rightarrow> pyval \<Rightarrow> pyval list" where
  "project descs row =
     map (\<lambda>col. lookup_or (items_of (row_data row)) (column_name col) PNone) descs"

definition wf_payload :: "pyval \<Rightarrow> pyval list \<Rightarrow> pyval list \<Rightarrow> bool" where
  "wf_payload p descs rows =
     (is_dict p
      \<and> dict_lookup (items_of p) (PStr ''description'') = Some (PList descs)
      \<and> dict_lookup (items_of p) (PStr ''results'') = Some (PList rows)
      \<and> list_all wf_column descs \<and> list_all wf_row rows)"

text \<open>The cursor stands before row \<open>k\<close>: \<^verbatim>\<open>_it\<close> is \<open>k\<close>, or \<^verbatim>\<open>None\<close> before the first row.\<close>

definition stands_at :: "cursor \<Rightarrow> nat \<Rightarrow> bool" where
  "stands_at c k = (it c = ItIdx k \<or> (k = 0 \<and> it c = ItNone))"

section \<open>Sample inputs\<close>

definition sample_connection :: glue_connection where
  "sample_connection = \<lparr> client = ''glue'', session_id = PStr ''session-1'' \<rparr>"

definition sample_cursor :: cursor where
  "sample_cursor = init ''cursor-1'' sample_connection"

definition reply :: "pyval \<Rightarrow> pyval \<Rightarrow> pyval" where
  "reply st output =
     PDict [(PStr ''Statement'', PDict [(PStr ''State'', st), (PStr ''Output'', output)])]"

definition ok_output :: "string \<Rightarrow> pyval" where
  "ok_output t =
     PDict [(PStr ''Status'', PStr ''ok''),
            (PStr ''Data'', PDict [(PStr ''TextPlain'', PStr t)])]"

definition error_output :: "string \<Rightarrow> string \<Rightarrow> pyval" where
  "error_output en evl =
     PDict [(PStr ''Status'', PStr ''error''),
            (PStr ''ErrorName'', PStr en), (PStr ''ErrorValue'', PStr evl)]"

definition one_row_text :: string where
  \<open>one_row_text =
     ''{"rowcount": 1, "description": [{"name": "id", "type": "int"}], "results": [{"data": {"id": null}}]}''\<close>

definition one_row :: pyval where
  "one_row =
     PDict [(PStr ''rowcount'', PInt 1),
            (PStr ''description'',
               PList [PDict [(PStr ''name'', PStr ''id''), (PStr ''type'', PStr ''int'')]]),
            (PStr ''results'', PList [PDict [(PStr ''data'', PDict [(PStr ''id'', PNone)])]])]"

definition miscounted_text :: string where
  \<open>miscounted_text =
     ''{"rowcount": 2, "description": [{"name": "id", "type": "int"}], "results": [{"data": {"id": 1}}]}''\<close>

definition miscounted :: pyval where
  "miscounted =
     PDict [(PStr ''rowcount'', PInt 2),
            (PStr ''description'',
               PList [PDict [(PStr ''name'', PStr ''id''), (PStr ''type'', PStr ''int'')]]),
            (PStr ''results'', PList [PDict [(PStr ''data'', PDict [(PStr ''id'', PInt 1)])]])]"

definition no_description_text :: string where
  \<open>no_description_text = ''{"rowcount": 1, "results": [{"data": {"id": 1}}]}''\<close>

definition no_description :: pyval where
  "no_description =
     PDict [(PStr ''rowcount'', PInt 1),
            (PStr ''results'', PList [PDict [(PStr ''data'', PDict [(PStr ''id'', PInt 1)])]])]"

definition no_results_text :: string where
  \<open>no_results_text = ''{"rowcount": 0}''\<close>

definition no_results :: pyval where
  "no_results = PDict [(PStr ''rowcount'', PInt 0)]"

definition scalar_results_text :: string where
  \<open>scalar_results_text = ''{"results": 5}''\<close>

definition scalar_results :: pyval where
  "scalar_results = PDict [(PStr ''results'', PInt 5)]"

text \<open>
  A decoder for the sample texts: what \<^verbatim>\<open>json.loads\<close> returns on each of them, and a
  failure on any other text, among them \<^verbatim>\<open>not json\<close>.
\<close>

definition sample_loads :: "string \<Rightarrow> pyval option" where
  "sample_loads =
     map_of [(one_row_text, one_row), (miscounted_text, miscounted),
             (no_description_text, no_description),
             (scalar_results_text, scalar_results), (no_results_text, no_results)]"

definition sample_env :: "pyval \<Rightarrow> env" where
  "sample_env r =
     \<lparr> dedent = (\<lambda>s. s), loads = sample_loads, run_statement = (\<lambda>stmt. Inr r) \<rparr>"



text \<open>The sample cursor after it has run a query whose payload is a sample text.\<close>

definition after_execute :: "string \<Rightarrow> cursor" where
  "after_execute t =
     snd (execute (sample_env (reply AVAILABLE (ok_output t))) ''select 1'' sample_cursor)"

section \<open>Basic facts\<close>

lemma and_then_Inl [simp]: "and_then (Inl e) f = Inl e"
  by (simp add: and_then_def)

lemma and_then_Inr [simp]: "and_then (Inr v) f = f v"
  by (simp add: and_then_def)

lemma and_then_eq_Inr:
  "and_then r f = Inr y \<longleftrightarrow> (\<exists>v. r = Inr v \<and> f v = Inr y)"
  by (cases r) simp_all

lemma py_get_dict [simp]:
  "hashable k \<Longrightarrow> py_get (PDict kvs) k dflt = Inr (lookup_or kvs k dflt)"
  by (simp add: py_get_def lookup_or_def)

lemma hashable_PStr [simp]: "hashable (PStr s)"
  by simp

subsection \<open>No method assigns the closed flag except close\<close>

lemma closed_pre [simp]: "closed (pre c) = closed c"
  by (simp add: pre_def)

lemma closed_post [simp]: "closed (post c) = closed c"
  by (simp add: post_def)

lemma closed_parse_output: "closed (snd (parse_output ev output c)) = closed c"
  by (simp add: parse_output_def Let_def split: sum.splits)

lemma closed_not_ok: "closed (snd (not_ok status output c)) = closed c"
  by (simp add: not_ok_def split: sum.splits)

lemma closed_available: "closed (snd (available ev resp c)) = closed c"
  by (simp add: available_def Let_def closed_parse_output closed_not_ok split: sum.splits)

lemma closed_terminal: "closed (snd (terminal c)) = closed c"
  by (simp add: terminal_def)

lemma closed_handle_response: "closed (snd (handle_response ev resp c)) = closed c"
proof (cases "statement_field resp ''State'' WAITING")
  case (Inl e)
  then show ?thesis by (simp add: handle_response_def)
next
  case (Inr st)
  show ?thesis
  proof (cases "st = AVAILABLE")
    case True
    obtain r c2 where a: "available ev resp (c\<lparr>state := st\<rparr>) = (r, c2)"
      by (cases "available ev resp (c\<lparr>state := st\<rparr>)")
    have "closed c2 = closed c"
      using closed_available [of ev resp "c\<lparr>state := st\<rparr>"] a by simp
    then show ?thesis
      using Inr True a by (cases r) (simp_all add: handle_response_def closed_terminal)
  next
    case False
    then show ?thesis using Inr by (simp add: handle_response_def closed_terminal)
  qed
qed

lemma closed_execute: "closed (snd (execute ev q c)) = closed c"
  by (simp add: execute_def Let_def closed_handle_response split: sum.splits)

lemma start_it_fields:
  "start_it c = Inr c1 \<Longrightarrow>
     closed c1 = closed c \<and> response c1 = response c \<and> c1\<lparr>it := a\<rparr> = c\<lparr>it := a\<rparr>"
  by (cases "it c") (auto simp: start_it_def it_value_def split: if_splits)

lemma closed_fetchone: "closed (snd (fetchone c)) = closed c"
  by (auto simp: fetchone_def split: sum.splits prod.splits dest: start_it_fields)

lemma closed_next_row: "closed (snd (next_row c)) = closed c"
proof -
  obtain r c' where f: "fetchone c = (r, c')" by (cases "fetchone c")
  then have "closed c' = closed c" using closed_fetchone [of c] by simp
  then show ?thesis using f by (cases r) (simp_all add: next_row_def)
qed

lemma closed_dict_fetchone: "closed (snd (dict_fetchone c)) = closed c"
proof -
  obtain r c' where f: "fetchone c = (r, c')" by (cases "fetchone c")
  then have "closed c' = closed c" using closed_fetchone [of c] by simp
  then show ?thesis using f by (cases r) (simp_all add: dict_fetchone_def split: sum.splits)
qed

lemma closed_close: "closed c \<Longrightarrow> closed (snd (close c))"
  by (simp add: close_def)

lemma closed_step: "closed c \<Longrightarrow> closed (snd (step ev x c))"
  by (cases x)
    (simp_all add: closed_execute closed_fetchone closed_next_row closed_dict_fetchone
      closed_close)

lemma closed_run: "closed c \<Longrightarrow> closed (run ev xs c)"
  by (induction xs arbitrary: c) (simp_all add: closed_step)

text \<open>
  C5. A cursor that is closed rejects \<^verbatim>\<open>execute\<close>, \<^verbatim>\<open>fetchone\<close> and \<^verbatim>\<open>fetchall\<close>
  (of both cursor classes) with \<^verbatim>\<open>CursorClosed\<close> and \<^verbatim>\<open>close\<close> with
  \<^verbatim>\<open>CursorAlreadyClosed\<close>, so that closing twice always ends in \<^verbatim>\<open>CursorAlreadyClosed\<close>;
  no sequence of calls makes a closed cursor open again. \<^verbatim>\<open>execute\<close> tests the closed flag
  before the running flag: on a cursor that is not closed, an \<^verbatim>\<open>execute\<close> issued while a
  statement is running raises \<^verbatim>\<open>CursorAlreadyRunning\<close>.
\<close>

theorem cursor_guards:
  "(closed c \<longrightarrow>
      fst (execute ev q c) = Inl (Exception ''CursorClosed'')
      \<and> fst (fetchone c) = Inl (Exception ''CursorClosed'')
      \<and> fetchall c = Inl (Exception ''CursorClosed'')
      \<and> fst (dict_fetchone c) = Inl (Exception ''CursorClosed'')
      \<and> dict_fetchall c = Inl (Exception ''CursorClosed'')
      \<and> fst (close c) = Inl (Exception ''CursorAlreadyClosed'')
      \<and> closed (run ev calls c))
   \<and> (\<not> closed c \<and> is_running c \<longrightarrow>
      fst (execute ev q c) = Inl (InternalException (Some ''CursorAlreadyRunning'')))
   \<and> fst (close (snd (close c))) = Inl (Exception ''CursorAlreadyClosed'')"
  by (simp add: execute_def fetchone_def fetchall_def dict_fetchone_def dict_fetchall_def
      close_def closed_run)

theorem cursor_guards_witness:
  "closed (snd (close sample_cursor))
   \<and> fst (execute (sample_env PNone) ''select 1'' (snd (close sample_cursor)))
       = Inl (Exception ''CursorClosed'')
   \<and> closed (run (sample_env PNone) [Execute ''select 1'', Fetchone, Close]
        (snd (close sample_cursor)))
   \<and> \<not> closed (snd (execute (sample_env (reply RUNNING PNone)) ''select 1'' sample_cursor))
   \<and> is_running (snd (execute (sample_env (reply RUNNING PNone)) ''select 1'' sample_cursor))
   \<and> fst (execute (sample_env PNone) ''select 2''
        (snd (execute (sample_env (reply RUNNING PNone)) ''select 1'' sample_cursor)))
       = Inl (InternalException (Some ''CursorAlreadyRunning''))"
proof -
  have h1: "closed (snd (close sample_cursor))"
    by (simp add: close_def sample_cursor_def init_def)
  have h2: "\<not> closed (snd (execute (sample_env (reply RUNNING PNone)) ''select 1'' sample_cursor))
      \<and> is_running (snd (execute (sample_env (reply RUNNING PNone)) ''select 1'' sample_cursor))"
    by code_simp
  show ?thesis
    using h1 h2
      cursor_guards [of "snd (close sample_cursor)" "sample_env PNone" "''select 1''"
        "[Execute ''select 1'', Fetchone, Close]"]
      cursor_guards [of "snd (execute (sample_env (reply RUNNING PNone)) ''select 1''
        sample_cursor)" "sample_env PNone" "''select 2''" "[]"]
    by blast
qed


section \<open>Fetching without a result\<close>

text \<open>
  C7. On a cursor that is not closed and holds no result (the response is absent or
  falsy), \<^verbatim>\<open>fetchone\<close> and \<^verbatim>\<open>fetchall\<close> of \<^verbatim>\<open>GlueCursor\<close> and \<^verbatim>\<open>fetchone\<close> of
  \<^verbatim>\<open>GlueDictCursor\<close> return \<^verbatim>\<open>None\<close> and leave the cursor as it is, but
  \<^verbatim>\<open>GlueDictCursor.fetchall\<close> iterates over the \<^verbatim>\<open>None\<close> it gets from the base class and
  raises \<^verbatim>\<open>TypeError\<close>.
\<close>

theorem fetch_without_result:
  "\<not> closed c \<Longrightarrow> \<not> truthy (response c) \<Longrightarrow>
     fetchone c = (Inr PNone, c) \<and> fetchall c = Inr PNone
     \<and> dict_fetchone c = (Inr PNone, c) \<and> dict_fetchall c = Inl TypeError"
  by (simp add: fetchone_def fetchall_def dict_fetchone_def dict_fetchall_def py_iter_def)

theorem fetch_without_result_witness:
  "\<not> closed sample_cursor \<and> \<not> truthy (response sample_cursor)
   \<and> fetchone sample_cursor = (Inr PNone, sample_cursor)
   \<and> fetchall sample_cursor = Inr PNone
   \<and> dict_fetchone sample_cursor = (Inr PNone, sample_cursor)
   \<and> dict_fetchall sample_cursor = Inl TypeError"
proof -
  have h1: "\<not> closed sample_cursor"
    by (simp add: sample_cursor_def init_def)
  have h2: "\<not> truthy (response sample_cursor)"
    by (simp add: sample_cursor_def init_def)
  show ?thesis
    using h1 h2 fetch_without_result [OF h1 h2] by simp
qed

section \<open>A payload without a description list\<close>

text \<open>
  C9. When the recorded payload is a non-empty object without a \<^verbatim>\<open>description\<close> entry,
  \<^verbatim>\<open>description()\<close> falls back to the empty list and returns it, whereas the
  \<^verbatim>\<open>columns\<close> property reads the entry without a default, iterates over \<^verbatim>\<open>None\<close> and
  raises \<^verbatim>\<open>TypeError\<close>.
\<close>

theorem missing_description:
  "response c = PDict kvs \<Longrightarrow> kvs \<noteq> [] \<Longrightarrow>
   dict_lookup kvs (PStr ''description'') = None \<Longrightarrow>
     columns c = Inl TypeError \<and> description c = Inr (PList [])"
  by (simp add: columns_def description_def lookup_or_def py_iter_def)

lemma response_after_no_description:
  "response (after_execute no_description_text) = no_description"
  by code_simp

theorem missing_description_witness:
  "columns (after_execute no_description_text) = Inl TypeError
   \<and> description (after_execute no_description_text) = Inr (PList [])"
proof -
  have h1: "response (after_execute no_description_text) =
      PDict [(PStr ''rowcount'', PInt 1),
             (PStr ''results'', PList [PDict [(PStr ''data'', PDict [(PStr ''id'', PInt 1)])]])]"
    using response_after_no_description by (simp add: no_description_def)
  show ?thesis
    using missing_description [OF h1] by simp
qed


section \<open>execute: the outcome of an available statement\<close>

lemma find_pos_zero: "find_pos s sub = Some 0 \<longleftrightarrow> startswith s sub"
  by (cases s) (auto simp: startswith_def)

lemma str_find_zero: "str_find s sub = 0 \<longleftrightarrow> startswith s sub"
  using find_pos_zero [of s sub]
  by (auto simp: str_find_def split: option.splits)

lemma str_split_not_Nil: "str_split sep s \<noteq> []"
  by (induction s) (auto split: list.splits)

lemma first_chunk_split: "first_chunk (str_split sep s) = Inr (hd (str_split sep s))"
  using str_split_not_Nil [of sep s]
  by (cases "str_split sep s") (simp_all add: first_chunk_def)

text \<open>
  An \<^verbatim>\<open>execute\<close> that passes both guards and the removal of the header submits the
  statement and goes on with the response.
\<close>

lemma execute_submitted:
  assumes "\<not> closed c" and "\<not> is_running c"
    and "remove_comments_header q = Inr s"
    and "run_statement ev (GlueStatement (client (connection c)) (session_id (connection c))
           (submission_code ev s)) = Inr resp"
  shows "execute ev q c =
    handle_response ev resp
      (c\<lparr> sql := PStr s, it := ItNone, is_running := True, response := PNone,
          code := PStr (submission_code ev s),
          statement := Some (GlueStatement (client (connection c)) (session_id (connection c))
            (submission_code ev s)) \<rparr>)"
  using assms by (simp add: execute_def Let_def pre_def)

lemma handle_response_available:
  assumes "statement_field resp ''State'' WAITING = Inr AVAILABLE"
  shows "handle_response ev resp c =
    (case available ev resp (c\<lparr>state := AVAILABLE\<rparr>) of
       (Inl e, c2) \<Rightarrow> (Inl e, c2)
     | (Inr u, c2) \<Rightarrow> terminal c2)"
  using assms by (simp add: handle_response_def)

lemma available_output:
  assumes "statement_field resp ''Output'' (PDict []) = Inr (PDict okvs)"
  shows "available ev resp c =
    (if lookup_or okvs (PStr ''Status'') PNone = PStr ''ok''
     then parse_output ev (PDict okvs) (post c)
     else not_ok (lookup_or okvs (PStr ''Status'') PNone) (PDict okvs) (post c))"
  using assms by (simp add: available_def Let_def)

lemma not_ok_str:
  assumes "lookup_or okvs (PStr ''ErrorValue'') PNone = PStr evl"
  shows "not_ok status (PDict okvs) c =
    (if startswith evl ''is not a view''
     then (Inl (DatabaseException (GlueReturned status (statement_id c) (code c)
              (lookup_or okvs (PStr ''ErrorName'') PNone) (PStr evl))), c)
     else (Inr (), c))"
  using assms str_find_zero [of evl "''is not a view''"]
  by (simp add: not_ok_def error_value_find_def glue_returned_def)

lemma terminal_available:
  "state c = AVAILABLE \<Longrightarrow> terminal c = (Inr (response c), c)"
  by (simp add: terminal_def AVAILABLE_def ERROR_def CANCELLED_def CANCELLING_def)

text \<open>
  With status other than \<^verbatim>\<open>ok\<close> and a string as error value, \<^verbatim>\<open>execute\<close> raises
  exactly when the error value starts with \<^verbatim>\<open>is not a view\<close>, where \<^verbatim>\<open>find\<close> gives
  the falsy \<open>0\<close>; in every other case, the substring further right or missing, it
  returns \<^verbatim>\<open>None\<close>.
\<close>

lemma execute_not_ok:
  assumes "\<not> closed c" and "\<not> is_running c"
    and "remove_comments_header q = Inr s"
    and "run_statement ev (GlueStatement (client (connection c)) (session_id (connection c))
           (submission_code ev s)) = Inr resp"
    and "statement_field resp ''State'' WAITING = Inr AVAILABLE"
    and "statement_field resp ''Output'' (PDict []) = Inr (PDict okvs)"
    and "lookup_or okvs (PStr ''Status'') PNone \<noteq> PStr ''ok''"
    and "lookup_or okvs (PStr ''ErrorValue'') PNone = PStr evl"
  shows "fst (execute ev q c) =
    (if startswith evl ''is not a view''
     then Inl (DatabaseException (GlueReturned (lookup_or okvs (PStr ''Status'') PNone)
            (statement_id c) (PStr (submission_code ev s)) (lookup_or okvs (PStr ''ErrorName'') PNone)
            (PStr evl)))
     else Inr PNone)"
proof -
  let ?c3 = "c\<lparr> sql := PStr s, it := ItNone, is_running := True, response := PNone,
          code := PStr (submission_code ev s),
          statement := Some (GlueStatement (client (connection c)) (session_id (connection c))
            (submission_code ev s)) \<rparr>"
  have e: "execute ev q c = handle_response ev resp ?c3"
    using assms(1-4) by (rule execute_submitted)
  have a: "available ev resp (?c3\<lparr>state := AVAILABLE\<rparr>) =
      not_ok (lookup_or okvs (PStr ''Status'') PNone) (PDict okvs)
        (post (?c3\<lparr>state := AVAILABLE\<rparr>))"
    using assms(6,7) by (simp add: available_output)
  show ?thesis
    unfolding e handle_response_available [OF assms(5)] a not_ok_str [OF assms(8)]
    by (simp add: terminal_available post_def assms(1))
qed

text \<open>
  C1. Two runs of \<^verbatim>\<open>execute\<close> on the sample cursor, the remote state \<^verbatim>\<open>AVAILABLE\<close>
  and the status \<^verbatim>\<open>error\<close>. With an error value that does not contain
  \<^verbatim>\<open>is not a view\<close> the call returns \<^verbatim>\<open>None\<close> and raises nothing; with an error
  value that contains it, at its start, the call raises the \<^verbatim>\<open>DatabaseException\<close>.
\<close>

theorem execute_not_ok_samples:
  "fst (execute
         (sample_env (reply AVAILABLE
            (error_output ''AnalysisException'' ''Table or view not found: t'')))
         ''select 1'' sample_cursor) = Inr PNone
   \<and> fst (execute
         (sample_env (reply AVAILABLE
            (error_output ''AnalysisException'' ''is not a view: t'')))
         ''select 1'' sample_cursor)
     = Inl (DatabaseException
         (GlueReturned (PStr ''error'') PNone
            (PStr (''SqlWrapper2.execute('' @ quote3 @ ''select 1'' @ quote3 @ '')''))
            (PStr ''AnalysisException'') (PStr ''is not a view: t'')))"
  by code_simp

section \<open>execute: a payload that does not decode\<close>

lemma parse_output_undecodable:
  assumes "lookup_or okvs (PStr ''Data'') (PDict []) = PDict dkvs"
    and "lookup_or dkvs (PStr ''TextPlain'') PNone = PStr t"
    and "loads ev (str_strip t) = None"
    and "loads ev (hd (str_split newline (str_strip t))) = None"
  shows "parse_output ev (PDict okvs) c = (Inl JSONDecodeError, c)"
  using assms
  by (simp add: parse_output_def text_plain_def json_loads_def Let_def first_chunk_split
      could_not_parse_def)

text \<open>
  When the text decodes neither whole nor in its first line, the handler of the second
  failure decodes the first line a third time to build its log message, and that call
  raises out of \<^verbatim>\<open>execute\<close>.
\<close>

lemma execute_undecodable:
  assumes "\<not> closed c" and "\<not> is_running c"
    and "remove_comments_header q = Inr s"
    and "run_statement ev (GlueStatement (client (connection c)) (session_id (connection c))
           (submission_code ev s)) = Inr resp"
    and "statement_field resp ''State'' WAITING = Inr AVAILABLE"
    and "statement_field resp ''Output'' (PDict []) = Inr (PDict okvs)"
    and "lookup_or okvs (PStr ''Status'') PNone = PStr ''ok''"
    and "lookup_or okvs (PStr ''Data'') (PDict []) = PDict dkvs"
    and "lookup_or dkvs (PStr ''TextPlain'') PNone = PStr t"
    and "loads ev (str_strip t) = None"
    and "loads ev (hd (str_split newline (str_strip t))) = None"
  shows "fst (execute ev q c) = Inl JSONDecodeError"
proof -
  let ?c3 = "c\<lparr> sql := PStr s, it := ItNone, is_running := True, response := PNone,
          code := PStr (submission_code ev s),
          statement := Some (GlueStatement (client (connection c)) (session_id (connection c))
            (submission_code ev s)) \<rparr>"
  have e: "execute ev q c = handle_response ev resp ?c3"
    using assms(1-4) by (rule execute_submitted)
  have a: "available ev resp (?c3\<lparr>state := AVAILABLE\<rparr>) =
      parse_output ev (PDict okvs) (post (?c3\<lparr>state := AVAILABLE\<rparr>))"
    using assms(6,7) by (simp add: available_output)
  show ?thesis
    unfolding e handle_response_available [OF assms(5)] a
      parse_output_undecodable [OF assms(8-11)]
    by simp
qed

text \<open>
  C2. \<^verbatim>\<open>execute\<close> on the sample cursor, the remote state \<^verbatim>\<open>AVAILABLE\<close>, the status
  \<^verbatim>\<open>ok\<close> and the text \<^verbatim>\<open>not json\<close>, which decodes neither whole nor in its first
  line: the call raises the decoder's error, and the cursor is left without a result.
\<close>

theorem execute_undecodable_sample:
  "loads (sample_env (reply AVAILABLE (ok_output ''not json''))) (str_strip ''not json'') = None
   \<and> loads (sample_env (reply AVAILABLE (ok_output ''not json'')))
        (hd (str_split newline (str_strip ''not json''))) = None
   \<and> fst (execute (sample_env (reply AVAILABLE (ok_output ''not json''))) ''select 1''
        sample_cursor) = Inl JSONDecodeError
   \<and> response (snd (execute (sample_env (reply AVAILABLE (ok_output ''not json'')))
        ''select 1'' sample_cursor)) = PNone"
  by code_simp


section \<open>execute: the remote state ERROR\<close>

lemma handle_response_error:
  assumes "statement_field resp ''State'' WAITING = Inr ERROR"
  shows "handle_response ev resp c =
    (Inl (InternalException None), c\<lparr> state := PStr ''error'', it := ItNone, is_running := False \<rparr>)"
  using assms
  by (simp add: handle_response_def terminal_def post_def ERROR_def AVAILABLE_def)

text \<open>
  C4, as the code has it. An \<^verbatim>\<open>execute\<close> that is submitted and comes back with the
  remote state \<^verbatim>\<open>ERROR\<close> raises \<^verbatim>\<open>InternalException\<close>; \<^verbatim>\<open>_pre\<close> has cleared the
  cached result before the submission, so the cursor holds no result afterwards, whatever
  it held before. The running flag is reset and the state is \<^verbatim>\<open>error\<close>.
\<close>

theorem execute_error_state:
  assumes "\<not> closed c" and "\<not> is_running c"
    and "remove_comments_header q = Inr s"
    and "run_statement ev (GlueStatement (client (connection c)) (session_id (connection c))
           (submission_code ev s)) = Inr resp"
    and "statement_field resp ''State'' WAITING = Inr ERROR"
  shows "fst (execute ev q c) = Inl (InternalException None)
    \<and> response (snd (execute ev q c)) = PNone
    \<and> \<not> is_running (snd (execute ev q c))
    \<and> state (snd (execute ev q c)) = PStr ''error''"
  unfolding execute_submitted [OF assms(1-4)] handle_response_error [OF assms(5)]
  by simp

lemma response_after_one_row: "response (after_execute one_row_text) = one_row"
  by code_simp

lemma after_one_row_open:
  "\<not> closed (after_execute one_row_text) \<and> \<not> is_running (after_execute one_row_text)"
  by code_simp

theorem execute_error_state_witness:
  "fst (execute (sample_env (reply ERROR (PDict []))) ''select 2'' (after_execute one_row_text))
     = Inl (InternalException None)
   \<and> response (snd (execute (sample_env (reply ERROR (PDict []))) ''select 2''
        (after_execute one_row_text))) = PNone
   \<and> \<not> is_running (snd (execute (sample_env (reply ERROR (PDict []))) ''select 2''
        (after_execute one_row_text)))
   \<and> state (snd (execute (sample_env (reply ERROR (PDict []))) ''select 2''
        (after_execute one_row_text))) = PStr ''error''"
proof -
  have h1: "\<not> closed (after_execute one_row_text)"
    and h2: "\<not> is_running (after_execute one_row_text)"
    using after_one_row_open by simp_all
  have h3: "remove_comments_header ''select 2'' = Inr ''select 2''"
    by (simp add: remove_comments_header_def)
  have h4: "run_statement (sample_env (reply ERROR (PDict [])))
      (GlueStatement (client (connection (after_execute one_row_text)))
         (session_id (connection (after_execute one_row_text)))
         (submission_code (sample_env (reply ERROR (PDict []))) ''select 2''))
      = Inr (reply ERROR (PDict []))"
    by (simp add: sample_env_def)
  have h5: "statement_field (reply ERROR (PDict [])) ''State'' WAITING = Inr ERROR"
    by (simp add: statement_field_def reply_def lookup_or_def)
  show ?thesis
    using execute_error_state [OF h1 h2 h3 h4 h5] .
qed

text \<open>
  The sample cursor holds the one-row payload; a second \<^verbatim>\<open>execute\<close> that ends in the
  remote state \<^verbatim>\<open>ERROR\<close> leaves it without that payload.
\<close>

theorem error_clears_cached_result:
  "response (after_execute one_row_text) = one_row
   \<and> fst (execute (sample_env (reply ERROR (PDict []))) ''select 2''
        (after_execute one_row_text)) = Inl (InternalException None)
   \<and> response (snd (execute (sample_env (reply ERROR (PDict []))) ''select 2''
        (after_execute one_row_text))) \<noteq> response (after_execute one_row_text)"
  by code_simp


section \<open>Projection of rows\<close>

lemma map_err_all:
  "(\<And>x. x \<in> set xs \<Longrightarrow> f x = Inr (g x)) \<Longrightarrow> map_err f xs = Inr (map g xs)"
  by (induction xs) simp_all

lemma map_err_first_failure:
  "j < length xs \<Longrightarrow> f (xs ! j) = Inl e \<Longrightarrow> (\<And>k. k < j \<Longrightarrow> \<exists>r. f (xs ! k) = Inr r) \<Longrightarrow>
     map_err f xs = Inl e"
proof (induction xs arbitrary: j)
  case Nil
  then show ?case by simp
next
  case (Cons x xs)
  show ?case
  proof (cases j)
    case 0
    then show ?thesis using Cons.prems(2) by simp
  next
    case (Suc j')
    have "\<exists>r. f ((x # xs) ! 0) = Inr r"
      using Cons.prems(3) [of 0] Suc by simp
    then obtain r where r: "f x = Inr r" by auto
    have "map_err f xs = Inl e"
    proof (rule Cons.IH [of j'])
      show "j' < length xs" using Cons.prems(1) Suc by simp
      show "f (xs ! j') = Inl e" using Cons.prems(2) Suc by simp
      show "\<exists>r. f (xs ! k) = Inr r" if "k < j'" for k
        using Cons.prems(3) [of "Suc k"] that Suc by simp
    qed
    then show ?thesis using r by simp
  qed
qed

lemma is_dict_items: "is_dict v \<Longrightarrow> v = PDict (items_of v)"
  by (cases v) simp_all

lemma wf_payload_truthy: "wf_payload p descs rows \<Longrightarrow> truthy p"
  by (cases p) (auto simp: wf_payload_def)

lemma columns_wf:
  assumes "wf_payload (response c) descs rows"
  shows "columns c = Inr (PList (map column_name descs))"
proof -
  have d: "response c = PDict (items_of (response c))"
    using assms by (simp add: wf_payload_def is_dict_items)
  have l: "lookup_or (items_of (response c)) (PStr ''description'') PNone = PList descs"
    using assms by (simp add: wf_payload_def lookup_or_def)
  have m: "map_err (\<lambda>column. py_get column (PStr ''name'') PNone) descs
      = Inr (map column_name descs)"
  proof (rule map_err_all)
    fix x assume "x \<in> set descs"
    then have "is_dict x"
      using assms by (simp add: wf_payload_def list_all_iff wf_column_def)
    then have "x = PDict (items_of x)" by (rule is_dict_items)
    then have "py_get x (PStr ''name'') PNone
        = Inr (lookup_or (items_of x) (PStr ''name'') PNone)"
      using py_get_dict [of "PStr ''name''" "items_of x" PNone] by simp
    then show "py_get x (PStr ''name'') PNone = Inr (column_name x)"
      by (simp add: column_name_def)
  qed
  have "py_get (response c) (PStr ''description'') PNone = Inr (PList descs)"
    using py_get_dict [of "PStr ''description''" "items_of (response c)" PNone] d l by simp
  then show ?thesis
    using wf_payload_truthy [OF assms] m by (simp add: columns_def py_iter_def)
qed

lemma record_of_wf:
  assumes "wf_payload (response c) descs rows" and "wf_row row"
  shows "record_of c row = Inr (project descs row)"
proof -
  have r: "row = PDict (items_of row)"
    using assms(2) by (simp add: wf_row_def is_dict_items)
  have dd: "row_data row = PDict (items_of (row_data row))"
    using assms(2) by (simp add: wf_row_def is_dict_items)
  have g: "py_get row (PStr ''data'') (PDict []) = Inr (row_data row)"
    using py_get_dict [of "PStr ''data''" "items_of row" "PDict []"] r
    by (simp add: row_data_def)
  have m: "map_err (\<lambda>column.
        and_then (py_get row (PStr ''data'') (PDict [])) (\<lambda>d. py_get d column PNone))
        (map column_name descs)
      = Inr (map (\<lambda>n. lookup_or (items_of (row_data row)) n PNone) (map column_name descs))"
  proof (rule map_err_all)
    fix n assume "n \<in> set (map column_name descs)"
    then have h: "hashable n"
      using assms(1) by (auto simp: wf_payload_def list_all_iff wf_column_def)
    have "py_get (row_data row) n PNone = Inr (lookup_or (items_of (row_data row)) n PNone)"
      using py_get_dict [OF h, of "items_of (row_data row)" PNone] dd by simp
    then show "and_then (py_get row (PStr ''data'') (PDict [])) (\<lambda>d. py_get d n PNone)
        = Inr (lookup_or (items_of (row_data row)) n PNone)"
      using g by simp
  qed
  show ?thesis
    using columns_wf [OF assms(1)] m
    by (simp add: record_of_def py_iter_def project_def comp_def)
qed

lemma fetchall_wf:
  assumes "\<not> closed c" and "wf_payload (response c) descs rows"
  shows "fetchall c = Inr (PList (map (\<lambda>row. PList (project descs row)) rows))"
proof -
  have d: "response c = PDict (items_of (response c))"
    using assms(2) by (simp add: wf_payload_def is_dict_items)
  have l: "lookup_or (items_of (response c)) (PStr ''results'') (PList []) = PList rows"
    using assms(2) by (simp add: wf_payload_def lookup_or_def)
  have g: "py_get (response c) (PStr ''results'') (PList []) = Inr (PList rows)"
    using py_get_dict [of "PStr ''results''" "items_of (response c)" "PList []"] d l by simp
  have m: "map_err (record_of c) rows = Inr (map (project descs) rows)"
  proof (rule map_err_all)
    fix row assume "row \<in> set rows"
    then have "wf_row row" using assms(2) by (simp add: wf_payload_def list_all_iff)
    then show "record_of c row = Inr (project descs row)"
      using assms(2) by (rule record_of_wf [rotated])
  qed
  show ?thesis
    using assms(1) wf_payload_truthy [OF assms(2)] g m
    by (simp add: fetchall_def py_iter_def comp_def)
qed


section \<open>The index after execute\<close>

lemma it_parse_output: "it (snd (parse_output ev output c)) = it c"
  by (simp add: parse_output_def Let_def split: sum.splits)

lemma it_not_ok: "it (snd (not_ok status output c)) = it c"
  by (simp add: not_ok_def split: sum.splits)

lemma it_available: "it (snd (available ev resp c)) = ItNone"
  by (simp add: available_def Let_def it_parse_output it_not_ok post_def split: sum.splits)

lemma it_terminal: "it c = ItNone \<Longrightarrow> it (snd (terminal c)) = ItNone"
  by (simp add: terminal_def post_def)

lemma it_handle_response:
  assumes "it c = ItNone"
  shows "it (snd (handle_response ev resp c)) = ItNone"
proof (cases "statement_field resp ''State'' WAITING")
  case (Inl e)
  then show ?thesis using assms by (simp add: handle_response_def)
next
  case (Inr st)
  show ?thesis
  proof (cases "st = AVAILABLE")
    case True
    obtain r c2 where a: "available ev resp (c\<lparr>state := st\<rparr>) = (r, c2)"
      by (cases "available ev resp (c\<lparr>state := st\<rparr>)")
    have "it c2 = ItNone"
      using it_available [of ev resp "c\<lparr>state := st\<rparr>"] a by simp
    then show ?thesis
      using Inr True a by (cases r) (simp_all add: handle_response_def it_terminal)
  next
    case False
    then show ?thesis using Inr assms by (simp add: handle_response_def it_terminal)
  qed
qed

text \<open>
  An \<^verbatim>\<open>execute\<close> that returns has gone through \<^verbatim>\<open>_pre\<close>, and nothing after it
  assigns \<^verbatim>\<open>_it\<close> a number: the cursor stands before the first row.
\<close>

lemma it_after_execute:
  assumes "fst (execute ev q c) = Inr p"
  shows "it (snd (execute ev q c)) = ItNone"
  using assms
  by (auto simp: execute_def Let_def pre_def it_handle_response split: if_splits sum.splits)

section \<open>fetchone over a well-formed result\<close>

lemma results_wf:
  assumes "wf_payload (response c) descs rows"
  shows "py_get (response c) (PStr ''results'') PNone = Inr (PList rows)"
proof -
  have d: "response c = PDict (items_of (response c))"
    using assms by (simp add: wf_payload_def is_dict_items)
  have l: "lookup_or (items_of (response c)) (PStr ''results'') PNone = PList rows"
    using assms by (simp add: wf_payload_def lookup_or_def)
  show ?thesis
    using py_get_dict [of "PStr ''results''" "items_of (response c)" PNone] d l by simp
qed

lemma fetch_row_wf:
  assumes "wf_payload (response c) descs rows" and "it c = ItIdx k"
  shows "fetch_row c =
    (if k < length rows then Inr (project descs (rows ! k), ItIdx (k + 1))
     else Inl IndexError)"
proof (cases "k < length rows")
  case True
  then have "wf_row (rows ! k)"
    using assms(1) by (simp add: wf_payload_def list_all_length)
  then have "record_of c (rows ! k) = Inr (project descs (rows ! k))"
    using assms(1) by (rule record_of_wf [rotated])
  then show ?thesis
    using True assms(2) results_wf [OF assms(1)]
    by (simp add: fetch_row_def it_value_def it_succ_def py_getitem_def as_index_def
        seq_index_def)
next
  case False
  then show ?thesis
    using assms(2) results_wf [OF assms(1)]
    by (simp add: fetch_row_def it_value_def py_getitem_def as_index_def seq_index_def)
qed

lemma start_it_stands_at: "stands_at c k \<Longrightarrow> start_it c = Inr (c\<lparr>it := ItIdx k\<rparr>)"
  by (auto simp: stands_at_def start_it_def it_value_def)

lemma fetchone_wf:
  assumes "\<not> closed c" and "wf_payload (response c) descs rows" and "stands_at c k"
  shows "fetchone c =
    (if k < length rows then (Inr (PList (project descs (rows ! k))), c\<lparr>it := ItIdx (k + 1)\<rparr>)
     else (Inr PNone, c\<lparr>it := ItNone\<rparr>))"
proof -
  have w: "wf_payload (response (c\<lparr>it := ItIdx k\<rparr>)) descs rows"
    using assms(2) by simp
  have "fetch_row (c\<lparr>it := ItIdx k\<rparr>) =
      (if k < length rows then Inr (project descs (rows ! k), ItIdx (k + 1))
       else Inl IndexError)"
    using w by (rule fetch_row_wf) simp
  then show ?thesis
    using assms(1) wf_payload_truthy [OF assms(2)] start_it_stands_at [OF assms(3)]
    by (simp add: fetchone_def)
qed

lemma fetchone_times_wf:
  assumes "\<not> closed c" and "wf_payload (response c) descs rows"
    and "stands_at c k" and "k \<le> length rows" and "n = length rows - k"
  shows "fetchone_times (Suc n) c =
    (map (\<lambda>row. Inr (PList (project descs row))) (drop k rows) @ [Inr PNone],
     c\<lparr>it := ItNone\<rparr>)"
  using assms
proof (induction n arbitrary: c k)
  case 0
  then have "k = length rows" by simp
  then show ?case
    using fetchone_wf [OF "0.prems"(1-3)] by simp
next
  case (Suc n)
  then have lt: "k < length rows" by simp
  let ?c' = "c\<lparr>it := ItIdx (k + 1)\<rparr>"
  have f: "fetchone c = (Inr (PList (project descs (rows ! k))), ?c')"
    using fetchone_wf [OF Suc.prems(1-3)] lt by simp
  have r: "fetchone_times (Suc n) ?c' =
      (map (\<lambda>row. Inr (PList (project descs row))) (drop (k + 1) rows) @ [Inr PNone],
       ?c'\<lparr>it := ItNone\<rparr>)"
  proof (rule Suc.IH)
    show "\<not> closed ?c'" using Suc.prems(1) by simp
    show "wf_payload (response ?c') descs rows" using Suc.prems(2) by simp
    show "stands_at ?c' (k + 1)" by (simp add: stands_at_def)
    show "k + 1 \<le> length rows" using lt by simp
    show "n = length rows - (k + 1)" using Suc.prems(5) by simp
  qed
  have "drop k rows = rows ! k # drop (k + 1) rows"
    using lt by (simp add: Cons_nth_drop_Suc)
  then show ?case
    using f r by (simp del: fetchone_times.simps add: fetchone_times.simps(2) [of "Suc n"])
qed

text \<open>
  C3, as the code has it. On a cursor that is not closed, straight after the
  \<^verbatim>\<open>execute\<close> that recorded a well-formed payload with \<open>N\<close> rows, the first \<open>N\<close> calls
  of \<^verbatim>\<open>fetchone\<close> return the rows once each in result order, every one as a list (so also
  a row of nulls), and call \<open>N + 1\<close> returns \<^verbatim>\<open>None\<close> without raising and sets \<^verbatim>\<open>_it\<close>
  back to \<^verbatim>\<open>None\<close>: the cursor is then what it was before the first call, and the calls
  that follow go through the rows again.
\<close>

theorem fetchone_cycle:
  assumes "\<not> closed c" and "wf_payload (response c) descs rows" and "it c = ItNone"
  shows "fetchone_times (length rows + 1) c =
    (map (\<lambda>row. Inr (PList (project descs row))) rows @ [Inr PNone], c)"
proof -
  have s: "stands_at c 0"
    using assms(3) by (simp add: stands_at_def)
  have "fetchone_times (Suc (length rows)) c =
      (map (\<lambda>row. Inr (PList (project descs row))) (drop 0 rows) @ [Inr PNone],
       c\<lparr>it := ItNone\<rparr>)"
    using assms(1,2) s by (rule fetchone_times_wf) simp_all
  moreover have "c\<lparr>it := ItNone\<rparr> = c"
    using assms(3) by simp
  ultimately show ?thesis by simp
qed

lemma after_one_row_fields:
  "\<not> closed (after_execute one_row_text) \<and> it (after_execute one_row_text) = ItNone
   \<and> response (after_execute one_row_text) = one_row"
  by code_simp

lemma one_row_wf:
  "wf_payload one_row
     [PDict [(PStr ''name'', PStr ''id''), (PStr ''type'', PStr ''int'')]]
     [PDict [(PStr ''data'', PDict [(PStr ''id'', PNone)])]]"
  by (simp add: wf_payload_def one_row_def wf_column_def wf_row_def column_name_def
      row_data_def lookup_or_def)

theorem fetchone_cycle_witness:
  "fetchone_times 2 (after_execute one_row_text) =
     ([Inr (PList [PNone]), Inr PNone], after_execute one_row_text)"
proof -
  have h1: "\<not> closed (after_execute one_row_text)"
    and h3: "it (after_execute one_row_text) = ItNone"
    using after_one_row_fields by simp_all
  have h2: "wf_payload (response (after_execute one_row_text))
      [PDict [(PStr ''name'', PStr ''id''), (PStr ''type'', PStr ''int'')]]
      [PDict [(PStr ''data'', PDict [(PStr ''id'', PNone)])]]"
    using after_one_row_fields one_row_wf by simp
  show ?thesis
    using fetchone_cycle [OF h1 h2 h3]
    by (simp del: fetchone_times.simps
        add: project_def row_data_def column_name_def lookup_or_def numeral_2_eq_2)
qed

text \<open>
  The sample cursor holds one row. The second \<^verbatim>\<open>fetchone\<close> finds the result exhausted;
  the third, on the same result, does not return \<^verbatim>\<open>None\<close> but the first row again.
\<close>

theorem fetchone_rewinds:
  "fst (fetchone_times 3 (after_execute one_row_text))
     = [Inr (PList [PNone]), Inr PNone, Inr (PList [PNone])]"
  by code_simp


section \<open>The result of a successful execute\<close>

lemma terminal_returns_response:
  "fst (terminal c) = Inr p \<Longrightarrow> response (snd (terminal c)) = p"
  by (simp add: terminal_def split: if_splits)

lemma handle_response_returns_response:
  assumes "fst (handle_response ev resp c) = Inr p"
  shows "response (snd (handle_response ev resp c)) = p"
proof (cases "statement_field resp ''State'' WAITING")
  case (Inl e)
  then show ?thesis using assms by (simp add: handle_response_def)
next
  case (Inr st)
  show ?thesis
  proof (cases "st = AVAILABLE")
    case True
    obtain r c2 where a: "available ev resp (c\<lparr>state := st\<rparr>) = (r, c2)"
      by (cases "available ev resp (c\<lparr>state := st\<rparr>)")
    show ?thesis
    proof (cases r)
      case (Inl e)
      then show ?thesis using assms Inr True a by (simp add: handle_response_def)
    next
      case r: (Inr u)
      then have "handle_response ev resp c = terminal c2"
        using Inr True a by (simp add: handle_response_def)
      then show ?thesis using assms by (simp add: terminal_returns_response)
    qed
  next
    case False
    then have "handle_response ev resp c = terminal (c\<lparr>state := st\<rparr>)"
      using Inr by (simp add: handle_response_def)
    then show ?thesis using assms by (simp add: terminal_returns_response)
  qed
qed

lemma execute_returns_response:
  assumes "fst (execute ev q c) = Inr p"
  shows "response (snd (execute ev q c)) = p \<and> \<not> closed (snd (execute ev q c))"
proof -
  have o: "\<not> closed c"
    using assms by (auto simp: execute_def split: if_splits)
  have "response (snd (execute ev q c)) = p"
    using assms
    by (auto simp: execute_def Let_def handle_response_returns_response
        split: if_splits sum.splits)
  then show ?thesis using o by (simp add: closed_execute)
qed

text \<open>
  C6, as the code has it. After an \<^verbatim>\<open>execute\<close> that returns a well-formed payload,
  \<^verbatim>\<open>rowcount\<close> is the payload's \<^verbatim>\<open>rowcount\<close> entry (\<^verbatim>\<open>None\<close> without one),
  \<^verbatim>\<open>columns\<close> is the list of the names of the payload's description in order, and
  \<^verbatim>\<open>fetchall\<close> returns one record for each row of the payload's results. So the length
  of the list \<^verbatim>\<open>fetchall\<close> returns is \<^verbatim>\<open>rowcount\<close> when the payload's
  \<^verbatim>\<open>rowcount\<close> entry is the number of its rows.
\<close>

theorem after_successful_execute:
  assumes "fst (execute ev q c) = Inr p" and "wf_payload p descs rows"
  shows "rowcount (snd (execute ev q c)) = Inr (lookup_or (items_of p) (PStr ''rowcount'') PNone)
    \<and> columns (snd (execute ev q c)) = Inr (PList (map column_name descs))
    \<and> fetchall (snd (execute ev q c)) = Inr (PList (map (\<lambda>row. PList (project descs row)) rows))
    \<and> length (map (\<lambda>row. PList (project descs row)) rows) = length rows
    \<and> (lookup_or (items_of p) (PStr ''rowcount'') PNone = PInt (int (length rows)) \<longrightarrow>
         rowcount (snd (execute ev q c))
           = Inr (PInt (int (length (map (\<lambda>row. PList (project descs row)) rows)))))"
proof -
  let ?c = "snd (execute ev q c)"
  have r: "response ?c = p" and o: "\<not> closed ?c"
    using execute_returns_response [OF assms(1)] by simp_all
  have w: "wf_payload (response ?c) descs rows"
    using r assms(2) by simp
  have d: "p = PDict (items_of p)"
    using assms(2) by (simp add: wf_payload_def is_dict_items)
  have "py_get p (PStr ''rowcount'') PNone = Inr (lookup_or (items_of p) (PStr ''rowcount'') PNone)"
    using py_get_dict [of "PStr ''rowcount''" "items_of p" PNone] d by simp
  then have rc: "rowcount ?c = Inr (lookup_or (items_of p) (PStr ''rowcount'') PNone)"
    using r wf_payload_truthy [OF assms(2)] by (simp add: rowcount_def)
  show ?thesis
    using rc columns_wf [OF w] fetchall_wf [OF o w] by simp
qed

lemma execute_one_row:
  "fst (execute (sample_env (reply AVAILABLE (ok_output one_row_text))) ''select 1''
     sample_cursor) = Inr one_row"
  by code_simp

theorem after_successful_execute_witness:
  "rowcount (after_execute one_row_text) = Inr (PInt 1)
   \<and> columns (after_execute one_row_text) = Inr (PList [PStr ''id''])
   \<and> fetchall (after_execute one_row_text) = Inr (PList [PList [PNone]])
   \<and> lookup_or (items_of one_row) (PStr ''rowcount'') PNone = PInt (int (length [one_row]))"
  using after_successful_execute [OF execute_one_row one_row_wf]
  by (simp add: after_execute_def one_row_def lookup_or_def project_def row_data_def
      column_name_def)

text \<open>
  The sample payload with one row and the \<^verbatim>\<open>rowcount\<close> entry 2 is recorded by a
  successful \<^verbatim>\<open>execute\<close>; \<^verbatim>\<open>rowcount\<close> is then 2, neither the number of rows of the
  payload nor the length of the list \<^verbatim>\<open>fetchall\<close> returns.
\<close>

theorem rowcount_is_payload_entry:
  "fst (execute (sample_env (reply AVAILABLE (ok_output miscounted_text))) ''select 1''
     sample_cursor) = Inr miscounted
   \<and> py_get miscounted (PStr ''results'') PNone
       = Inr (PList [PDict [(PStr ''data'', PDict [(PStr ''id'', PInt 1)])]])
   \<and> rowcount (after_execute miscounted_text) = Inr (PInt 2)
   \<and> fetchall (after_execute miscounted_text) = Inr (PList [PList [PInt 1]])"
  by code_simp


section \<open>The submitted code\<close>









subsection \<open>What execute records of the submission\<close>




















section \<open>Errors while projecting a row\<close>

lemma record_of_it [simp]: "record_of (c\<lparr>it := a\<rparr>) item = record_of c item"
  by (simp add: record_of_def columns_def)

lemma fetch_row_at:
  "fetch_row (c\<lparr>it := ItIdx i\<rparr>) =
     and_then (py_get (response c) (PStr ''results'') PNone) (\<lambda>rs.
     and_then (py_getitem rs (PInt (int i))) (\<lambda>item.
     and_then (record_of c item) (\<lambda>record. Inr (record, ItIdx (i + 1)))))"
  by (simp add: fetch_row_def it_value_def it_succ_def)

text \<open>
  The \<^verbatim>\<open>try\<close> of \<^verbatim>\<open>fetchone\<close> covers the whole body: with a result and an assigned
  index the call always returns, a record or \<^verbatim>\<open>None\<close>.
\<close>

lemma fetchone_returns:
  assumes "\<not> closed c" and "truthy (response c)" and "stands_at c i"
  shows "fetchone c =
    (case fetch_row (c\<lparr>it := ItIdx i\<rparr>) of
       Inr (record, nxt) \<Rightarrow> (Inr (PList record), c\<lparr>it := nxt\<rparr>)
     | Inl e \<Rightarrow> (Inr PNone, c\<lparr>it := ItNone\<rparr>))"
  using assms start_it_stands_at [OF assms(3)]
  by (simp add: fetchone_def split: sum.splits)

lemma fetchall_not_dict:
  assumes "\<not> closed c" and "truthy (response c)" and "\<not> is_dict (response c)"
    and "fetch_row (c\<lparr>it := ItIdx i\<rparr>) = Inl e"
  shows "fetchall c = Inl e"
  using assms
  by (cases "response c") (simp_all add: fetch_row_at fetchall_def py_get_def)

lemma fetchall_not_subscriptable:
  assumes "\<not> closed c"
    and "dict_lookup (items_of (response c)) (PStr ''results'') = Some rs"
    and "\<not> subscriptable rs"
    and "fetch_row (c\<lparr>it := ItIdx i\<rparr>) = Inl e"
  shows "fetchall c = Inl e"
proof -
  obtain kvs where r: "response c = PDict kvs"
    using assms(2) by (cases "response c") auto
  have k: "kvs \<noteq> []"
    using assms(2) r by (cases kvs) simp_all
  have l: "dict_lookup kvs (PStr ''results'') = Some rs"
    using assms(2) r by simp
  have g: "py_getitem rs (PInt (int i)) = Inl TypeError" and t: "py_iter rs = Inl TypeError"
    using assms(3) by (cases rs; simp add: py_getitem_def py_iter_def)+
  have "e = TypeError"
    using assms(4) r l g by (simp add: fetch_row_at lookup_or_def)
  then show ?thesis
    using assms(1) r k l t by (simp add: fetchall_def lookup_or_def)
qed

lemma fetchall_first_failing_row:
  assumes "\<not> closed c"
    and "dict_lookup (items_of (response c)) (PStr ''results'') = Some (PList rows)"
    and "i < length rows"
    and "\<forall>k<i. \<exists>r. record_of c (rows ! k) = Inr r"
    and "fetch_row (c\<lparr>it := ItIdx i\<rparr>) = Inl e"
  shows "fetchall c = Inl e"
proof -
  obtain kvs where r: "response c = PDict kvs"
    using assms(2) by (cases "response c") auto
  have k: "kvs \<noteq> []"
    using assms(2) r by (cases kvs) simp_all
  have l: "dict_lookup kvs (PStr ''results'') = Some (PList rows)"
    using assms(2) r by simp
  have g: "py_getitem (PList rows) (PInt (int i)) = Inr (rows ! i)"
    using assms(3) by (simp add: py_getitem_def as_index_def seq_index_def)
  have rr: "record_of c (rows ! i) = Inl e"
    using assms(5) r l g
    by (cases "record_of c (rows ! i)") (simp_all add: fetch_row_at lookup_or_def)
  have "map_err (record_of c) rows = Inl e"
    using assms(3) rr by (rule map_err_first_failure) (use assms(4) in blast)
  then show ?thesis
    using assms(1) r k l by (simp add: fetchall_def lookup_or_def py_iter_def)
qed

lemma fetchall_no_results:
  assumes "\<not> closed c" and "truthy (response c)" and "is_dict (response c)"
    and "dict_lookup (items_of (response c)) (PStr ''results'') = None"
  shows "fetch_row (c\<lparr>it := ItIdx i\<rparr>) = Inl TypeError \<and> fetchall c = Inr (PList [])"
proof -
  obtain kvs where r: "response c = PDict kvs"
    using assms(3) by (cases "response c") auto
  have l: "dict_lookup kvs (PStr ''results'') = None"
    using assms(4) r by simp
  show ?thesis
    using assms(1,2) r l
    by (simp add: fetch_row_at fetchall_def lookup_or_def py_getitem_def py_iter_def)
qed

lemma fetchall_missing_description:
  assumes "\<not> closed c"
    and "dict_lookup (items_of (response c)) (PStr ''description'') = None"
    and "dict_lookup (items_of (response c)) (PStr ''results'') = Some (PList rows)"
    and "i < length rows"
  shows "fetch_row (c\<lparr>it := ItIdx i\<rparr>) = Inl TypeError \<and> fetchall c = Inl TypeError"
proof -
  obtain kvs where r: "response c = PDict kvs"
    using assms(3) by (cases "response c") auto
  have k: "kvs \<noteq> []"
    using assms(3) r by (cases kvs) simp_all
  have d: "dict_lookup kvs (PStr ''description'') = None"
    and l: "dict_lookup kvs (PStr ''results'') = Some (PList rows)"
    using assms(2,3) r by simp_all
  have "columns c = Inl TypeError"
    using r k d by (simp add: columns_def lookup_or_def py_iter_def)
  then have p: "record_of c item = Inl TypeError" for item
    by (simp add: record_of_def)
  have g: "py_getitem (PList rows) (PInt (int i)) = Inr (rows ! i)"
    using assms(4) by (simp add: py_getitem_def as_index_def seq_index_def)
  have m: "map_err (record_of c) rows = Inl TypeError"
    using assms(4) p by (cases rows) simp_all
  show ?thesis
    using assms(1) r k l g p m
    by (simp add: fetch_row_at fetchall_def lookup_or_def py_iter_def)
qed

text \<open>
  C10, as the code has it. On a cursor that is not closed, holds a result and stands at
  row \<open>i\<close>, \<^verbatim>\<open>fetchone\<close> never raises, and an error \<open>e\<close> raised in the body of its
  \<^verbatim>\<open>try\<close> is caught: the call returns \<^verbatim>\<open>None\<close> and sets \<^verbatim>\<open>_it\<close> to \<^verbatim>\<open>None\<close>,
  whatever \<open>e\<close> is, an index past the last row included. \<^verbatim>\<open>fetchall\<close> has no handler
  and raises the same \<open>e\<close> when the result is not an object, when the results entry is
  there and cannot be indexed, and when the results entry is a list and row \<open>i\<close> is its
  first row whose projection raises. When the result is an object without a results
  entry, \<open>e\<close> is the \<^verbatim>\<open>TypeError\<close> of indexing \<^verbatim>\<open>None\<close>, and \<^verbatim>\<open>fetchall\<close>, which reads
  the entry with the default \<^verbatim>\<open>[]\<close>, raises nothing and returns the empty list.
  In terms of the payload alone: without a description list and with a row \<open>i\<close> in
  the results list, \<^verbatim>\<open>fetchone\<close> returns \<^verbatim>\<open>None\<close> and \<^verbatim>\<open>fetchall\<close> raises
  \<^verbatim>\<open>TypeError\<close>.
\<close>

theorem caught_by_fetchone:
  assumes "\<not> closed c" and "truthy (response c)" and "stands_at c i"
  shows "(\<exists>v. fst (fetchone c) = Inr v)
    \<and> (fetch_row (c\<lparr>it := ItIdx i\<rparr>) = Inl e \<longrightarrow>
          fetchone c = (Inr PNone, c\<lparr>it := ItNone\<rparr>)
          \<and> (\<not> is_dict (response c) \<longrightarrow> fetchall c = Inl e)
          \<and> (dict_lookup (items_of (response c)) (PStr ''results'') = Some rs
               \<and> \<not> subscriptable rs \<longrightarrow> fetchall c = Inl e)
          \<and> (dict_lookup (items_of (response c)) (PStr ''results'') = Some (PList rows)
               \<and> i < length rows \<and> (\<forall>k<i. \<exists>r. record_of c (rows ! k) = Inr r)
              \<longrightarrow> fetchall c = Inl e)
          \<and> (is_dict (response c)
               \<and> dict_lookup (items_of (response c)) (PStr ''results'') = None
              \<longrightarrow> e = TypeError \<and> fetchall c = Inr (PList [])))
    \<and> (dict_lookup (items_of (response c)) (PStr ''description'') = None
         \<and> dict_lookup (items_of (response c)) (PStr ''results'') = Some (PList rows)
         \<and> i < length rows
        \<longrightarrow> fetchone c = (Inr PNone, c\<lparr>it := ItNone\<rparr>) \<and> fetchall c = Inl TypeError)"
proof -
  have f: "fetchone c =
      (case fetch_row (c\<lparr>it := ItIdx i\<rparr>) of
         Inr (record, nxt) \<Rightarrow> (Inr (PList record), c\<lparr>it := nxt\<rparr>)
       | Inl e \<Rightarrow> (Inr PNone, c\<lparr>it := ItNone\<rparr>))"
    using assms by (rule fetchone_returns)
  have 1: "\<exists>v. fst (fetchone c) = Inr v"
    unfolding f by (cases "fetch_row (c\<lparr>it := ItIdx i\<rparr>)") auto
  have 2: "fetchone c = (Inr PNone, c\<lparr>it := ItNone\<rparr>)"
    if "fetch_row (c\<lparr>it := ItIdx i\<rparr>) = Inl e'" for e'
    unfolding f using that by simp
  show ?thesis
    using 1 2 [of e] 2 [of TypeError] fetchall_missing_description [OF assms(1), of rows i]
      fetchall_not_dict [OF assms(1,2), of i e]
      fetchall_not_subscriptable [OF assms(1), of rs i e]
      fetchall_first_failing_row [OF assms(1), of rows i e]
      fetchall_no_results [OF assms(1,2), of i]
    by auto
qed


lemma no_description_sample:
  "\<not> closed (after_execute no_description_text)
   \<and> truthy (response (after_execute no_description_text))
   \<and> stands_at (after_execute no_description_text) 0
   \<and> fetch_row ((after_execute no_description_text)\<lparr>it := ItIdx 0\<rparr>) = Inl TypeError
   \<and> dict_lookup (items_of (response (after_execute no_description_text))) (PStr ''results'')
       = Some (PList [PDict [(PStr ''data'', PDict [(PStr ''id'', PInt 1)])]])"
  by code_simp

lemma scalar_results_sample:
  "\<not> closed (after_execute scalar_results_text)
   \<and> truthy (response (after_execute scalar_results_text))
   \<and> stands_at (after_execute scalar_results_text) 0
   \<and> fetch_row ((after_execute scalar_results_text)\<lparr>it := ItIdx 0\<rparr>) = Inl TypeError
   \<and> dict_lookup (items_of (response (after_execute scalar_results_text))) (PStr ''results'')
       = Some (PInt 5)
   \<and> \<not> subscriptable (PInt 5)"
  by code_simp

lemma no_results_sample:
  "\<not> closed (after_execute no_results_text)
   \<and> truthy (response (after_execute no_results_text))
   \<and> stands_at (after_execute no_results_text) 0
   \<and> fetch_row ((after_execute no_results_text)\<lparr>it := ItIdx 0\<rparr>) = Inl TypeError
   \<and> is_dict (response (after_execute no_results_text))
   \<and> dict_lookup (items_of (response (after_execute no_results_text))) (PStr ''results'')
       = None"
  by code_simp

theorem caught_by_fetchone_witness:
  "fetchone (after_execute no_description_text)
     = (Inr PNone, (after_execute no_description_text)\<lparr>it := ItNone\<rparr>)
   \<and> fetchall (after_execute no_description_text) = Inl TypeError
   \<and> fetchone (after_execute scalar_results_text)
     = (Inr PNone, (after_execute scalar_results_text)\<lparr>it := ItNone\<rparr>)
   \<and> fetchall (after_execute scalar_results_text) = Inl TypeError
   \<and> fetchone (after_execute no_results_text)
     = (Inr PNone, (after_execute no_results_text)\<lparr>it := ItNone\<rparr>)
   \<and> fetchall (after_execute no_results_text) = Inr (PList [])"
proof -
  have z: "\<forall>k<0::nat. \<exists>r. record_of (after_execute no_description_text)
      ([PDict [(PStr ''data'', PDict [(PStr ''id'', PInt 1)])]] ! k) = Inr r"
    by simp
  have l: "(0::nat) < length [PDict [(PStr ''data'', PDict [(PStr ''id'', PInt 1)])]]"
    by simp
  have a: "fetchone (after_execute no_description_text)
       = (Inr PNone, (after_execute no_description_text)\<lparr>it := ItNone\<rparr>)
     \<and> fetchall (after_execute no_description_text) = Inl TypeError"
    using no_description_sample z l
      caught_by_fetchone [of "after_execute no_description_text" 0 TypeError PNone
        "[PDict [(PStr ''data'', PDict [(PStr ''id'', PInt 1)])]]"]
    by blast
  have b: "fetchone (after_execute scalar_results_text)
       = (Inr PNone, (after_execute scalar_results_text)\<lparr>it := ItNone\<rparr>)
     \<and> fetchall (after_execute scalar_results_text) = Inl TypeError"
    using scalar_results_sample
      caught_by_fetchone [of "after_execute scalar_results_text" 0 TypeError "PInt 5" "[]"]
    by blast
  have c: "fetchone (after_execute no_results_text)
       = (Inr PNone, (after_execute no_results_text)\<lparr>it := ItNone\<rparr>)
     \<and> fetchall (after_execute no_results_text) = Inr (PList [])"
    using no_results_sample
      caught_by_fetchone [of "after_execute no_results_text" 0 TypeError PNone "[]"]
    by blast
  show ?thesis
    using a b c by blast
qed

text \<open>
  The sample cursor holds the payload with a row count and nothing else. The body of
  the \<^verbatim>\<open>try\<close> of \<^verbatim>\<open>fetchone\<close> raises \<^verbatim>\<open>TypeError\<close>, which \<^verbatim>\<open>fetchone\<close> turns
  into \<^verbatim>\<open>None\<close>; \<^verbatim>\<open>fetchall\<close> on the same cursor raises nothing.
\<close>

theorem fetchall_without_results:
  "response (after_execute no_results_text) = PDict [(PStr ''rowcount'', PInt 0)]
   \<and> fetch_row ((after_execute no_results_text)\<lparr>it := ItIdx 0\<rparr>) = Inl TypeError
   \<and> fst (fetchone (after_execute no_results_text)) = Inr PNone
   \<and> fetchall (after_execute no_results_text) = Inr (PList [])"
  by code_simp

end
